theory Spec2Isabelle
  imports Complex_Main
begin

section \<open>JavaScript values and effects\<close>

text \<open>
  The two modules verified here are the class \<open>FaceApiEmotionDetector\<close> and the React hook
  \<open>useFaceApiEmotionDetection\<close>. JavaScript numbers are modelled as reals, which
  stand for the finite ones; a value that may be \<open>undefined\<close> or \<open>NaN\<close> (both falsy) is a
  \<open>real option\<close> with \<open>None\<close> for either. A thrown
  exception is the left injection of a sum, console output is a list of entries, and the time
  and the external face-api.js library are inputs of each call. Every call a function makes
  that is visible outside it (the console, the state setters, the frame request) is an event
  in the list it returns.
\<close>

datatype js_error = JsError string

datatype console_level = Log | Warn | Err

type_synonym console_entry = "console_level \<times> string"

definition or_number :: "real option \<Rightarrow> real \<Rightarrow> real" where
  \<comment> \<open>\<open>x || d\<close> on a number: \<open>undefined\<close>, \<open>NaN\<close> and \<open>0\<close> are falsy.\<close>
  "or_number x d = (case x of None \<Rightarrow> d | Some v \<Rightarrow> if v = 0 then d else v)"

definition or_string :: "string option \<Rightarrow> string \<Rightarrow> string" where
  \<comment> \<open>\<open>x || d\<close> on a string: \<open>undefined\<close> and the empty string are falsy.\<close>
  "or_string x d = (case x of None \<Rightarrow> d | Some s \<Rightarrow> if s = [] then d else s)"

definition Math_round :: "real \<Rightarrow> real" where
  \<comment> \<open>\<open>Math.round\<close>: the nearest integer, a half rounded up.\<close>
  "Math_round x = of_int \<lfloor>x + 1 / 2\<rfloor>"

definition reduce :: "('a \<Rightarrow> 'a \<Rightarrow> 'a) \<Rightarrow> 'a list \<Rightarrow> js_error + 'a" where
  \<comment> \<open>\<open>Array.prototype.reduce\<close> without an initial value: a TypeError on the empty array,
      otherwise the first element is the first accumulator.\<close>
  "reduce f xs =
     (case xs of
        [] \<Rightarrow> Inl (JsError ''TypeError: Reduce of empty array with no initial value'')
      | x # rest \<Rightarrow> Inr (foldl f x rest))"

section \<open>The face-api.js library (external)\<close>

text \<open>
  What \<open>detectAllFaces(...).withFaceLandmarks().withFaceExpressions().withAgeAndGender()\<close>
  resolves to: one entry per face, of which the detector reads \<open>expressions\<close>, \<open>age\<close> and
  \<open>gender\<close>. The call itself is a parameter of \<open>detectEmotions\<close>; it either throws or returns
  the list.
\<close>

record FaceExpressions =
  expr_neutral :: "real option"
  expr_happy :: "real option"
  expr_sad :: "real option"
  expr_angry :: "real option"
  expr_fearful :: "real option"
  expr_disgusted :: "real option"
  expr_surprised :: "real option"

record FaceDetection =
  expressions :: FaceExpressions
  detection_age :: "real option"
  detection_gender :: "string option"

section \<open>FaceApiEmotionDetector\<close>

record FaceApiEmotionResult =
  neutral :: real
  happy :: real
  sad :: real
  angry :: real
  fearful :: real
  disgusted :: real
  surprised :: real

record FaceApiDetectionResult =
  emotions :: FaceApiEmotionResult
  dominant :: string
  confidence :: real
  age :: "real option"
  gender :: "string option"
  faceDetected :: bool

record FaceApiEmotionDetector =
  isInitialized :: bool
  modelsLoaded :: bool

definition new_FaceApiEmotionDetector :: FaceApiEmotionDetector where
  "new_FaceApiEmotionDetector = \<lparr>isInitialized = False, modelsLoaded = False\<rparr>"

subsection \<open>initialize\<close>

text \<open>
  \<open>initialize\<close> is an async function with one \<open>await\<close>. JavaScript runs the code between two
  suspension points without interruption, so the call is two atomic steps: \<open>initialize_enter\<close>
  runs from the entry to the \<open>await\<close> (or to the early return), \<open>initialize_resume\<close> runs from
  the settlement of \<open>Promise.all\<close> to the end. The network is a counter of the \<open>loadFromUri\<close>
  calls issued so far and of the \<open>Promise.all\<close> batches not yet settled.
\<close>

record network =
  loads_started :: nat
  loads_in_flight :: nat

datatype initialize_status = Resolved | AwaitingModels

definition initialize_enter ::
  "FaceApiEmotionDetector \<Rightarrow> network \<Rightarrow> initialize_status \<times> network \<times> console_entry list" where
  "initialize_enter this net =
     (if isInitialized this then (Resolved, net, [])
      else (AwaitingModels,
            net\<lparr>loads_started := loads_started net + 5, loads_in_flight := loads_in_flight net + 1\<rparr>,
            [(Log, ''Initializing face-api.js...'')]))"

definition initialize_resume ::
  "js_error + unit \<Rightarrow> FaceApiEmotionDetector \<Rightarrow> network \<Rightarrow>
     (js_error + unit) \<times> FaceApiEmotionDetector \<times> network \<times> console_entry list" where
  "initialize_resume loaded this net =
     (let net' = net\<lparr>loads_in_flight := loads_in_flight net - 1\<rparr> in
      case loaded of
        Inr _ \<Rightarrow> (Inr (), this\<lparr>modelsLoaded := True, isInitialized := True\<rparr>, net',
                  [(Log, ''face-api.js models loaded successfully'')])
      | Inl error \<Rightarrow> (Inl error, this, net', [(Err, ''Failed to load face-api.js models'')]))"

definition dispose :: "FaceApiEmotionDetector \<Rightarrow> FaceApiEmotionDetector" where
  "dispose this = this\<lparr>isInitialized := False, modelsLoaded := False\<rparr>"

subsection \<open>detectEmotions\<close>

definition Object_entries :: "FaceApiEmotionResult \<Rightarrow> (string \<times> real) list" where
  \<comment> \<open>The own properties in insertion order, the order of the object literal.\<close>
  "Object_entries e =
     [(''neutral'', neutral e), (''happy'', happy e), (''sad'', sad e), (''angry'', angry e),
      (''fearful'', fearful e), (''disgusted'', disgusted e), (''surprised'', surprised e)]"

definition no_face_result :: FaceApiDetectionResult where
  "no_face_result =
     \<lparr>emotions = \<lparr>neutral = 1, happy = 0, sad = 0, angry = 0, fearful = 0, disgusted = 0,
                  surprised = 0\<rparr>,
      dominant = ''neutral'', confidence = 0, age = None, gender = None, faceDetected = False\<rparr>"

definition convert_expressions :: "FaceExpressions \<Rightarrow> FaceApiEmotionResult" where
  "convert_expressions ex =
     \<lparr>neutral = or_number (expr_neutral ex) 0,
      happy = or_number (expr_happy ex) 0,
      sad = or_number (expr_sad ex) 0,
      angry = or_number (expr_angry ex) 0,
      fearful = or_number (expr_fearful ex) 0,
      disgusted = or_number (expr_disgusted ex) 0,
      surprised = or_number (expr_surprised ex) 0\<rparr>"

definition pick_max :: "string \<times> real \<Rightarrow> string \<times> real \<Rightarrow> string \<times> real" where
  \<comment> \<open>The reducer \<open>(max, current) => current[1] > max[1] ? current : max\<close>.\<close>
  "pick_max mx current = (if snd current > snd mx then current else mx)"

definition detect_try ::
  "('v \<Rightarrow> js_error + FaceDetection list) \<Rightarrow> 'v \<Rightarrow>
     (js_error + FaceApiDetectionResult) \<times> console_entry list" where
  \<comment> \<open>The body of the \<open>try\<close> block, with the two calls of it that can throw: the library
      call and \<open>reduce\<close>. Whatever is thrown inside the block reaches the \<open>catch\<close>.\<close>
  "detect_try detectAllFaces video =
     (case detectAllFaces video of
        Inl error \<Rightarrow> (Inl error, [])
      | Inr detections \<Rightarrow>
          (case detections of
             [] \<Rightarrow> (Inr no_face_result, [(Log, ''No face detected by face-api.js'')])
           | detection # _ \<Rightarrow>
               (let emotions' = convert_expressions (expressions detection);
                    emotionEntries = Object_entries emotions'
                in case reduce pick_max emotionEntries of
                     Inl error \<Rightarrow> (Inl error, [])
                   | Inr (dominantEmotion, confidence') \<Rightarrow>
                       (Inr \<lparr>emotions = emotions',
                             dominant = dominantEmotion,
                             confidence = confidence',
                             age = Some (Math_round (or_number (detection_age detection) 0)),
                             gender = Some (or_string (detection_gender detection) ''unknown''),
                             faceDetected = True\<rparr>,
                        [(Log, ''face-api.js emotion detected'')]))))"

definition detectEmotions ::
  "('v \<Rightarrow> js_error + FaceDetection list) \<Rightarrow> FaceApiEmotionDetector \<Rightarrow> 'v \<Rightarrow>
     (js_error + FaceApiDetectionResult option) \<times> console_entry list" where
  \<comment> \<open>\<open>Inr None\<close> is the promise resolved with \<open>null\<close>; \<open>Inl\<close> would be a rejected promise.\<close>
  "detectEmotions detectAllFaces this video =
     (if \<not> isInitialized this \<or> \<not> modelsLoaded this
      then (Inr None, [(Warn, ''face-api.js not initialized'')])
      else (case detect_try detectAllFaces video of
              (Inr result, out) \<Rightarrow> (Inr (Some result), out)
            | (Inl error, out) \<Rightarrow>
                (Inr None, out @ [(Err, ''Error in face-api.js emotion detection'')])))"

section \<open>useFaceApiEmotionDetection\<close>

text \<open>
  The type \<open>EmotionState\<close> is imported from a module that is not part of the sources; its
  fields are read off the two object literals the hook builds. \<open>scores\<close> is the object literal
  as an association list, so that \<open>scores[k]\<close> is \<open>map_of (scores s) k\<close>. Icons are written
  as their code points; the value of \<open>icon\<close> is a string or, for a label that names a member
  of \<open>Object.prototype\<close>, that member.
\<close>

datatype js_value = JsString string | PrototypeMember string

record EmotionState =
  es_dominant :: string
  es_confidence :: real
  scores :: "(string \<times> real) list"
  icon :: js_value
  timestamp :: "int option"

record AdditionalData =
  ad_age :: "real option"
  ad_gender :: "string option"
  ad_faceDetected :: bool

definition EmotionCategory :: "string set" where
  \<comment> \<open>Modelled from the spec: the closed set of categories (the type declaration is not in
      the sources).\<close>
  "EmotionCategory =
     {''neutral'', ''happy'', ''sad'', ''angry'', ''surprised'', ''fearful'', ''disgust''}"

record VideoElement =
  readyState :: nat
  videoWidth :: nat
  videoHeight :: nat

record hook =
  emotionState :: EmotionState
  additionalData :: AdditionalData
  isInitialized_state :: bool
  detectorRef :: "FaceApiEmotionDetector option"
  animationFrameRef :: "nat option"
  lastProcessTimeRef :: real

text \<open>What one run of \<open>processFrame\<close> reads from its environment.\<close>

record tick =
  isActive :: bool
  videoRef :: "VideoElement option"
  performance_now :: real
  Date_now :: int
  detectAllFaces :: "VideoElement \<Rightarrow> js_error + FaceDetection list"
  requestAnimationFrame :: nat

datatype event =
    Console console_level string
  | DetectEmotions
  | SetEmotionState EmotionState
  | SetAdditionalData AdditionalData
  | RequestAnimationFrame

definition initial_emotionState :: EmotionState where
  "initial_emotionState =
     \<lparr>es_dominant = ''neutral'', es_confidence = 0,
      scores = [(''neutral'', 1), (''happy'', 0), (''sad'', 0), (''angry'', 0),
                (''surprised'', 0), (''fearful'', 0), (''disgust'', 0)],
      icon = JsString ''U+1F610'', timestamp = None\<rparr>"

definition initial_hook :: hook where
  "initial_hook =
     \<lparr>emotionState = initial_emotionState,
      additionalData = \<lparr>ad_age = None, ad_gender = None, ad_faceDetected = False\<rparr>,
      isInitialized_state = False, detectorRef = None, animationFrameRef = None,
      lastProcessTimeRef = 0\<rparr>"

definition iconMap :: "(string \<times> string) list" where
  "iconMap =
     [(''happy'', ''U+1F60A''), (''sad'', ''U+1F622''), (''angry'', ''U+1F621''),
      (''surprised'', ''U+1F632''), (''fearful'', ''U+1F628''), (''disgusted'', ''U+1F922''),
      (''neutral'', ''U+1F610'')]"

definition Object_prototype_keys :: "string list" where
  \<comment> \<open>The property names every plain object inherits from \<open>Object.prototype\<close>.\<close>
  "Object_prototype_keys =
     [''constructor'', ''hasOwnProperty'', ''isPrototypeOf'', ''propertyIsEnumerable'',
      ''toLocaleString'', ''toString'', ''valueOf'', ''__proto__'', ''__defineGetter__'',
      ''__defineSetter__'', ''__lookupGetter__'', ''__lookupSetter__'']"

definition getEmotionIcon :: "string \<Rightarrow> js_value" where
  \<comment> \<open>\<open>iconMap[emotion] || default\<close>: an own property gives its icon, an inherited one gives
      the member of the prototype (a function or an object, truthy), anything else is
      \<open>undefined\<close> and gives the default.\<close>
  "getEmotionIcon emotion =
     (case map_of iconMap emotion of
        Some i \<Rightarrow> JsString (or_string (Some i) ''U+1F610'')
      | None \<Rightarrow>
          if emotion \<in> set Object_prototype_keys then PrototypeMember emotion
          else JsString ''U+1F610'')"

definition newEmotionState :: "FaceApiDetectionResult \<Rightarrow> int \<Rightarrow> EmotionState" where
  "newEmotionState result date =
     \<lparr>es_dominant = dominant result,
      es_confidence = confidence result,
      scores = [(''neutral'', neutral (emotions result)),
                (''happy'', happy (emotions result)),
                (''sad'', sad (emotions result)),
                (''angry'', angry (emotions result)),
                (''surprised'', surprised (emotions result)),
                (''fearful'', fearful (emotions result)),
                (''disgust'', disgusted (emotions result))],
      icon = getEmotionIcon (dominant result),
      timestamp = Some date\<rparr>"

definition newAdditionalData :: "FaceApiDetectionResult \<Rightarrow> AdditionalData" where
  "newAdditionalData result =
     \<lparr>ad_age = age result, ad_gender = gender result, ad_faceDetected = faceDetected result\<rparr>"

definition continue_processing :: "tick \<Rightarrow> hook \<times> event list \<Rightarrow> hook \<times> event list" where
  \<comment> \<open>\<open>if (isActive) animationFrameRef.current = requestAnimationFrame(processFrame)\<close>.\<close>
  "continue_processing env p =
     (if isActive env
      then ((fst p)\<lparr>animationFrameRef := Some (requestAnimationFrame env)\<rparr>,
            snd p @ [RequestAnimationFrame])
      else p)"

definition sample :: "tick \<Rightarrow> FaceApiEmotionDetector \<Rightarrow> VideoElement \<Rightarrow> hook \<Rightarrow> hook \<times> event list" where
  \<comment> \<open>The \<open>try\<close>/\<open>catch\<close> of \<open>processFrame\<close>.\<close>
  "sample env detector video st =
     (case detectEmotions (detectAllFaces env) detector video of
        (Inr (Some result), out) \<Rightarrow>
          (st\<lparr>emotionState := newEmotionState result (Date_now env),
              additionalData := newAdditionalData result\<rparr>,
           DetectEmotions # map (\<lambda>(l, m). Console l m) out
             @ [SetEmotionState (newEmotionState result (Date_now env)),
                SetAdditionalData (newAdditionalData result),
                Console Log ''face-api.js processed''])
      | (Inr None, out) \<Rightarrow> (st, DetectEmotions # map (\<lambda>(l, m). Console l m) out)
      | (Inl error, out) \<Rightarrow>
          (st, DetectEmotions # map (\<lambda>(l, m). Console l m) out
                 @ [Console Err ''Error processing face-api.js frame'']))"

definition processFrame :: "tick \<Rightarrow> hook \<Rightarrow> hook \<times> event list" where
  "processFrame env st =
     (case (videoRef env, detectorRef st) of
        (Some video, Some detector) \<Rightarrow>
          if \<not> isActive env \<or> \<not> isInitialized_state st then (st, [])
          else if readyState video \<noteq> 4 \<or> videoWidth video = 0 \<or> videoHeight video = 0
          then (st, [])
          else (let now = performance_now env in
                if now - lastProcessTimeRef st < 333
                then continue_processing env (st, [])
                else continue_processing env
                       (sample env detector video (st\<lparr>lastProcessTimeRef := now\<rparr>)))
      | _ \<Rightarrow> (st, []))"

fun run :: "hook \<Rightarrow> tick list \<Rightarrow> (real \<times> event list) list" where
  "run st [] = []"
| "run st (env # envs) =
     (performance_now env, snd (processFrame env st)) # run (fst (processFrame env st)) envs"

definition detection_times :: "hook \<Rightarrow> tick list \<Rightarrow> real list" where
  \<comment> \<open>The clock readings of the runs of \<open>processFrame\<close> that called \<open>detectEmotions\<close>.\<close>
  "detection_times st envs = map fst (filter (\<lambda>p. DetectEmotions \<in> set (snd p)) (run st envs))"

section \<open>Concrete inputs\<close>

definition ready_detector :: FaceApiEmotionDetector where
  "ready_detector = \<lparr>isInitialized = True, modelsLoaded = True\<rparr>"

definition ready_hook :: hook where
  "ready_hook = initial_hook\<lparr>isInitialized_state := True, detectorRef := Some ready_detector\<rparr>"

definition ready_video :: VideoElement where
  "ready_video = \<lparr>readyState = 4, videoWidth = 640, videoHeight = 480\<rparr>"

definition loading_video :: VideoElement where
  \<comment> \<open>\<open>HAVE_CURRENT_DATA\<close>: what the element reports when \<open>loadeddata\<close> fires.\<close>
  "loading_video = \<lparr>readyState = 2, videoWidth = 640, videoHeight = 480\<rparr>"

definition face :: "real \<Rightarrow> real \<Rightarrow> real \<Rightarrow> real \<Rightarrow> FaceDetection" where
  "face h s d a =
     \<lparr>expressions = \<lparr>expr_neutral = Some (1 / 10), expr_happy = Some h, expr_sad = Some s,
                      expr_angry = None, expr_fearful = Some 0, expr_disgusted = Some d,
                      expr_surprised = Some 0\<rparr>,
      detection_age = Some a, detection_gender = Some ''female''\<rparr>"

definition tick_at :: "real \<Rightarrow> VideoElement \<Rightarrow> (js_error + FaceDetection list) \<Rightarrow> tick" where
  "tick_at t v r =
     \<lparr>isActive = True, videoRef = Some v, performance_now = t, Date_now = 1700000000000,
      detectAllFaces = (\<lambda>_. r), requestAnimationFrame = 7\<rparr>"

definition tie_tick :: tick where
  \<comment> \<open>happy and sad tie at 0.5, everything else is lower; the age is 29.6.\<close>
  "tie_tick = tick_at 1000 ready_video (Inr [face (1 / 2) (1 / 2) 0 (148 / 5)])"

definition tie_result :: FaceApiDetectionResult where
  "tie_result =
     \<lparr>emotions = \<lparr>neutral = 1 / 10, happy = 1 / 2, sad = 1 / 2, angry = 0, fearful = 0,
                  disgusted = 0, surprised = 0\<rparr>,
      dominant = ''happy'', confidence = 1 / 2, age = Some 30, gender = Some ''female'',
      faceDetected = True\<rparr>"

definition negative_age_result :: FaceApiDetectionResult where
  "negative_age_result = tie_result\<lparr>age := Some (- 3)\<rparr>"

definition no_face_tick :: tick where
  "no_face_tick = tick_at 1000 ready_video (Inr [])"

definition disgusted_tick :: tick where
  "disgusted_tick = tick_at 1000 ready_video (Inr [face (1 / 2) (1 / 2) (9 / 10) 30])"

definition failing_tick :: tick where
  "failing_tick = tick_at 1000 ready_video (Inl (JsError ''backend failure''))"

definition loading_tick :: tick where
  "loading_tick = tick_at 1000 loading_video (Inr [face (1 / 2) (1 / 2) 0 30])"

definition throttled_tick :: tick where
  "throttled_tick = tick_at 100 ready_video (Inr [])"

definition idle_network :: network where
  "idle_network = \<lparr>loads_started = 0, loads_in_flight = 0\<rparr>"

section \<open>Auxiliary facts\<close>

lemma foldl_pick_max_split:
  "foldl pick_max a xs = r \<Longrightarrow>
   \<exists>pre post. a # xs = pre @ r # post
      \<and> (\<forall>p\<in>set pre. snd p < snd r) \<and> (\<forall>p\<in>set post. snd p \<le> snd r)"
proof (induction xs arbitrary: a)
  case Nil
  then have "a = r" by simp
  then show ?case by (intro exI [of _ "[]"]) simp
next
  case (Cons x xs)
  show ?case
  proof (cases "snd x > snd a")
    case True
    then have "pick_max a x = x" by (simp add: pick_max_def)
    with Cons.prems have "foldl pick_max x xs = r" by simp
    from Cons.IH [OF this] obtain pre post where
      d: "x # xs = pre @ r # post"
      and lt: "\<forall>p\<in>set pre. snd p < snd r"
      and le: "\<forall>p\<in>set post. snd p \<le> snd r" by blast
    have "x \<in> set (pre @ r # post)" using d by (metis list.set_intros(1))
    then have "snd x \<le> snd r" using lt le by auto
    with True have "snd a < snd r" by simp
    with d lt have "a # x # xs = (a # pre) @ r # post \<and> (\<forall>p\<in>set (a # pre). snd p < snd r)"
      by simp
    with le show ?thesis by blast
  next
    case False
    then have "pick_max a x = a" by (simp add: pick_max_def)
    with Cons.prems have "foldl pick_max a xs = r" by simp
    from Cons.IH [OF this] obtain pre post where
      d: "a # xs = pre @ r # post"
      and lt: "\<forall>p\<in>set pre. snd p < snd r"
      and le: "\<forall>p\<in>set post. snd p \<le> snd r" by blast
    show ?thesis
    proof (cases pre)
      case Nil
      with d have "r = a" and "post = xs" by simp_all
      with False le have "a # x # xs = [] @ r # (x # xs) \<and> (\<forall>p\<in>set (x # xs). snd p \<le> snd r)"
        by auto
      then show ?thesis by (intro exI [of _ "[]"] exI [of _ "x # xs"]) simp
    next
      case (Cons b pre')
      with d have b: "b = a" and xs: "xs = pre' @ r # post" by simp_all
      from lt Cons b have "snd a < snd r" by simp
      with False have "snd x < snd r" by simp
      with xs lt Cons b have "a # x # xs = (a # x # pre') @ r # post
          \<and> (\<forall>p\<in>set (a # x # pre'). snd p < snd r)" by auto
      with le show ?thesis by blast
    qed
  qed
qed

lemma reduce_pick_max_split:
  assumes "reduce pick_max xs = Inr m"
  shows "\<exists>pre post. xs = pre @ m # post \<and> (\<forall>p\<in>set pre. snd p < snd m)
            \<and> (\<forall>p\<in>set post. snd p \<le> snd m)"
proof (cases xs)
  case Nil
  with assms show ?thesis by (simp add: reduce_def)
next
  case (Cons a rest)
  with assms have "foldl pick_max a rest = m" by (simp add: reduce_def)
  from foldl_pick_max_split [OF this] Cons show ?thesis by simp
qed

lemma detectEmotions_Some:
  assumes "fst (detectEmotions f this v) = Inr (Some r)"
  shows "isInitialized this \<and> modelsLoaded this \<and>
    ((f v = Inr [] \<and> r = no_face_result) \<or>
     (\<exists>det rest. f v = Inr (det # rest) \<and> faceDetected r
        \<and> emotions r = convert_expressions (expressions det)
        \<and> reduce pick_max (Object_entries (emotions r)) = Inr (dominant r, confidence r)
        \<and> age r = Some (Math_round (or_number (detection_age det) 0))
        \<and> gender r = Some (or_string (detection_gender det) ''unknown'')))"
  using assms
  by (auto simp: detectEmotions_def detect_try_def Let_def
      split: if_splits sum.splits list.splits prod.splits)

lemma processFrame_published:
  assumes "SetEmotionState s \<in> set (snd (processFrame env st))"
    and "SetAdditionalData a \<in> set (snd (processFrame env st))"
  shows "\<exists>d v r. detectorRef st = Some d \<and> videoRef env = Some v
           \<and> fst (detectEmotions (detectAllFaces env) d v) = Inr (Some r)
           \<and> s = newEmotionState r (Date_now env) \<and> a = newAdditionalData r"
  using assms
  by (auto simp: processFrame_def sample_def continue_processing_def Let_def
      split: option.splits if_splits prod.splits sum.splits)

lemma processFrame_detect:
  assumes "DetectEmotions \<in> set (snd (processFrame env st))"
  shows "lastProcessTimeRef st + 333 \<le> performance_now env
       \<and> lastProcessTimeRef (fst (processFrame env st)) = performance_now env
       \<and> RequestAnimationFrame \<in> set (snd (processFrame env st))
       \<and> animationFrameRef (fst (processFrame env st)) = Some (requestAnimationFrame env)"
  using assms
  by (auto simp: processFrame_def sample_def continue_processing_def Let_def
      split: option.splits if_splits prod.splits sum.splits)

lemma processFrame_no_detect:
  assumes "DetectEmotions \<notin> set (snd (processFrame env st))"
  shows "lastProcessTimeRef (fst (processFrame env st)) = lastProcessTimeRef st"
  using assms
  by (auto simp: processFrame_def sample_def continue_processing_def Let_def
      split: option.splits if_splits prod.splits sum.splits)

lemma detection_times_Cons:
  "detection_times st (env # envs) =
     (if DetectEmotions \<in> set (snd (processFrame env st))
      then performance_now env # detection_times (fst (processFrame env st)) envs
      else detection_times (fst (processFrame env st)) envs)"
  by (simp add: detection_times_def)

lemma detection_times_spaced:
  "sorted_wrt (\<lambda>a b. a + 333 \<le> b) (detection_times st envs)
   \<and> (\<forall>t\<in>set (detection_times st envs). lastProcessTimeRef st + 333 \<le> t)"
proof (induction envs arbitrary: st)
  case Nil
  show ?case by (simp add: detection_times_def)
next
  case (Cons env envs)
  let ?st' = "fst (processFrame env st)"
  note IH = Cons.IH [of ?st']
  show ?case
  proof (cases "DetectEmotions \<in> set (snd (processFrame env st))")
    case True
    from processFrame_detect [OF True]
    have 1: "lastProcessTimeRef st + 333 \<le> performance_now env"
      and 2: "lastProcessTimeRef ?st' = performance_now env" by simp_all
    from IH 1 2 True show ?thesis by (auto simp: detection_times_Cons)
  next
    case False
    from processFrame_no_detect [OF False] IH False show ?thesis
      by (simp add: detection_times_Cons)
  qed
qed

lemma spaced_length:
  "sorted_wrt (\<lambda>a b. a + 333 \<le> b) (t # ts) \<Longrightarrow> \<forall>x\<in>set (t # ts). x \<le> hi \<Longrightarrow>
     real (length ts) * 333 \<le> hi - (t::real)"
proof (induction ts arbitrary: t)
  case Nil
  then show ?case by simp
next
  case (Cons u us)
  from Cons.prems have "sorted_wrt (\<lambda>a b. a + 333 \<le> b) (u # us)" and "\<forall>x\<in>set (u # us). x \<le> hi"
    and tu: "t + 333 \<le> u" by simp_all
  from Cons.IH [OF this(1,2)] have "real (length us) * 333 \<le> hi - u" .
  with tu show ?case by (simp add: algebra_simps)
qed

lemma spaced_window:
  assumes "sorted_wrt (\<lambda>a b. a + 333 \<le> b) (ts :: real list)"
  shows "length (filter (\<lambda>t. T \<le> t \<and> t \<le> T + 1000) ts) \<le> 4"
proof (cases "filter (\<lambda>t. T \<le> t \<and> t \<le> T + 1000) ts")
  case Nil
  then show ?thesis by simp
next
  case (Cons t rest)
  have s: "sorted_wrt (\<lambda>a b. a + 333 \<le> b) (filter (\<lambda>t. T \<le> t \<and> t \<le> T + 1000) ts)"
    using assms by (rule sorted_wrt_filter)
  have b: "\<forall>x\<in>set (filter (\<lambda>t. T \<le> t \<and> t \<le> T + 1000) ts). T \<le> x \<and> x \<le> T + 1000" by simp
  from b Cons have "T \<le> t" and "\<forall>x\<in>set (t # rest). x \<le> T + 1000" by simp_all
  with spaced_length [of t rest "T + 1000"] s Cons
  have "real (length rest) * 333 \<le> 1000" by simp
  then have "length rest \<le> 3" by linarith
  with Cons show ?thesis by simp
qed

lemma throttle_bound: "nat \<lceil>1000 / (333 :: real)\<rceil> + 1 = 5"
  by simp

lemmas eval_defs = processFrame_def sample_def continue_processing_def detectEmotions_def
  detect_try_def ready_detector_def ready_hook_def initial_hook_def initial_emotionState_def
  ready_video_def loading_video_def tick_at_def face_def convert_expressions_def
  Object_entries_def reduce_def pick_max_def or_number_def or_string_def Math_round_def
  newEmotionState_def newAdditionalData_def getEmotionIcon_def iconMap_def no_face_result_def
  Object_prototype_keys_def
  tie_tick_def tie_result_def negative_age_result_def no_face_tick_def disgusted_tick_def
  failing_tick_def loading_tick_def throttled_tick_def new_FaceApiEmotionDetector_def

section \<open>The published state\<close>

text \<open>
  C1, as amended. An EmotionState is published by the call \<open>setEmotionState\<close>, together with
  the additional data of the same result. When the result has a face, the confidence is
  exactly the score the dominant label holds in \<open>scores\<close> (the raw label \<open>disgusted\<close> is
  stored under the key \<open>disgust\<close>) and no score is greater. When the result has no face, the
  dominant label is \<open>neutral\<close>, which holds the greatest score 1, and the confidence is 0.
\<close>

theorem published_state_invariant:
  assumes "SetEmotionState s \<in> set (snd (processFrame env st))"
    and "SetAdditionalData a \<in> set (snd (processFrame env st))"
  shows "(ad_faceDetected a \<longrightarrow>
            map_of (scores s) (if es_dominant s = ''disgusted'' then ''disgust'' else es_dominant s)
              = Some (es_confidence s)
            \<and> (\<forall>p\<in>set (scores s). snd p \<le> es_confidence s))
       \<and> (\<not> ad_faceDetected a \<longrightarrow>
            es_dominant s = ''neutral'' \<and> es_confidence s = 0
            \<and> map_of (scores s) ''neutral'' = Some 1
            \<and> (\<forall>p\<in>set (scores s). snd p \<le> 1))"
proof -
  from processFrame_published [OF assms] obtain d v r where
    r: "fst (detectEmotions (detectAllFaces env) d v) = Inr (Some r)"
    and s: "s = newEmotionState r (Date_now env)" and a: "a = newAdditionalData r" by blast
  show ?thesis
  proof (cases "faceDetected r")
    case False
    with detectEmotions_Some [OF r] have "r = no_face_result" by auto
    with s a show ?thesis
      by (simp add: newEmotionState_def newAdditionalData_def no_face_result_def)
  next
    case True
    with detectEmotions_Some [OF r]
    have "reduce pick_max (Object_entries (emotions r)) = Inr (dominant r, confidence r)"
      by (auto simp: no_face_result_def)
    from reduce_pick_max_split [OF this] obtain pre post where
      d: "Object_entries (emotions r) = pre @ (dominant r, confidence r) # post"
      and lt: "\<forall>p\<in>set pre. snd p < confidence r"
      and le: "\<forall>p\<in>set post. snd p \<le> confidence r" by auto
    have mem: "(dominant r, confidence r) \<in> set (Object_entries (emotions r))"
      unfolding d by simp
    have mx: "\<forall>p\<in>set (Object_entries (emotions r)). snd p \<le> confidence r"
      unfolding d using lt le by auto
    from mem have look:
      "map_of (scores s) (if es_dominant s = ''disgusted'' then ''disgust'' else es_dominant s)
         = Some (es_confidence s)"
      unfolding s by (auto simp: Object_entries_def newEmotionState_def)
    from mx have "\<forall>p\<in>set (scores s). snd p \<le> es_confidence s"
      unfolding s by (simp add: Object_entries_def newEmotionState_def)
    with look True a show ?thesis by (simp add: newAdditionalData_def)
  qed
qed

text \<open>
  The invariant at two ticks: one with a face whose scores tie (happy and sad at 0.5), one
  without a face.
\<close>

theorem published_state_invariant_witness:
  "SetEmotionState (emotionState (fst (processFrame tie_tick ready_hook)))
     \<in> set (snd (processFrame tie_tick ready_hook))
   \<and> SetAdditionalData (additionalData (fst (processFrame tie_tick ready_hook)))
     \<in> set (snd (processFrame tie_tick ready_hook))
   \<and> ad_faceDetected (additionalData (fst (processFrame tie_tick ready_hook)))
   \<and> es_dominant (emotionState (fst (processFrame tie_tick ready_hook))) = ''happy''
   \<and> map_of (scores (emotionState (fst (processFrame tie_tick ready_hook)))) ''happy''
       = Some (es_confidence (emotionState (fst (processFrame tie_tick ready_hook))))
   \<and> SetEmotionState (emotionState (fst (processFrame no_face_tick ready_hook)))
     \<in> set (snd (processFrame no_face_tick ready_hook))
   \<and> SetAdditionalData (additionalData (fst (processFrame no_face_tick ready_hook)))
     \<in> set (snd (processFrame no_face_tick ready_hook))
   \<and> \<not> ad_faceDetected (additionalData (fst (processFrame no_face_tick ready_hook)))
   \<and> es_confidence (emotionState (fst (processFrame no_face_tick ready_hook))) = 0"
  using
    published_state_invariant [of "emotionState (fst (processFrame tie_tick ready_hook))"
      tie_tick ready_hook "additionalData (fst (processFrame tie_tick ready_hook))"]
    published_state_invariant [of "emotionState (fst (processFrame no_face_tick ready_hook))"
      no_face_tick ready_hook "additionalData (fst (processFrame no_face_tick ready_hook))"]
  by (simp add: eval_defs)

text \<open>
  The state published for a result without a face: the dominant label \<open>neutral\<close> holds the
  score 1 and the confidence is 0, so the confidence is not \<open>scores[dominant]\<close>.
\<close>

theorem no_face_confidence_differs:
  "SetEmotionState (emotionState (fst (processFrame no_face_tick ready_hook)))
     \<in> set (snd (processFrame no_face_tick ready_hook))
   \<and> \<not> ad_faceDetected (additionalData (fst (processFrame no_face_tick ready_hook)))
   \<and> map_of (scores (emotionState (fst (processFrame no_face_tick ready_hook))))
        (es_dominant (emotionState (fst (processFrame no_face_tick ready_hook))))
      \<noteq> Some (es_confidence (emotionState (fst (processFrame no_face_tick ready_hook))))"
  by (simp add: eval_defs)

text \<open>
  C2, as amended. A published state comes from a result \<open>r\<close> that \<open>detectEmotions\<close> returned
  on this tick for the hook's detector and video element. Its dominant label is the dominant
  label of \<open>r\<close>, copied unchanged. Its \<open>scores\<close> hold each score of \<open>r\<close> under the key of the
  same name, except that the raw score \<open>disgusted\<close> is held under \<open>disgust\<close>; the keys of
  \<open>scores\<close> are exactly the closed category set. The dominant label is one of neutral, happy,
  sad, angry, fearful, disgusted and surprised, hence a member of the closed set unless it is
  \<open>disgusted\<close>.
\<close>

theorem published_categories:
  assumes "SetEmotionState s \<in> set (snd (processFrame env st))"
    and "SetAdditionalData a \<in> set (snd (processFrame env st))"
  shows "(\<exists>d v r. detectorRef st = Some d \<and> videoRef env = Some v
            \<and> fst (detectEmotions (detectAllFaces env) d v) = Inr (Some r)
            \<and> es_dominant s = dominant r
            \<and> es_confidence s = confidence r
            \<and> map_of (scores s) ''neutral'' = Some (neutral (emotions r))
            \<and> map_of (scores s) ''happy'' = Some (happy (emotions r))
            \<and> map_of (scores s) ''sad'' = Some (sad (emotions r))
            \<and> map_of (scores s) ''angry'' = Some (angry (emotions r))
            \<and> map_of (scores s) ''surprised'' = Some (surprised (emotions r))
            \<and> map_of (scores s) ''fearful'' = Some (fearful (emotions r))
            \<and> map_of (scores s) ''disgust'' = Some (disgusted (emotions r))
            \<and> map_of (scores s) ''disgusted'' = None)
       \<and> fst ` set (scores s) = EmotionCategory
       \<and> es_dominant s
           \<in> {''neutral'', ''happy'', ''sad'', ''angry'', ''fearful'', ''disgusted'', ''surprised''}
       \<and> (es_dominant s \<noteq> ''disgusted'' \<longrightarrow> es_dominant s \<in> EmotionCategory)"
proof -
  from processFrame_published [OF assms] obtain d v r where
    dv: "detectorRef st = Some d" "videoRef env = Some v"
    and r: "fst (detectEmotions (detectAllFaces env) d v) = Inr (Some r)"
    and s: "s = newEmotionState r (Date_now env)" by blast
  have copied: "es_dominant s = dominant r \<and> es_confidence s = confidence r
      \<and> map_of (scores s) ''neutral'' = Some (neutral (emotions r))
      \<and> map_of (scores s) ''happy'' = Some (happy (emotions r))
      \<and> map_of (scores s) ''sad'' = Some (sad (emotions r))
      \<and> map_of (scores s) ''angry'' = Some (angry (emotions r))
      \<and> map_of (scores s) ''surprised'' = Some (surprised (emotions r))
      \<and> map_of (scores s) ''fearful'' = Some (fearful (emotions r))
      \<and> map_of (scores s) ''disgust'' = Some (disgusted (emotions r))
      \<and> map_of (scores s) ''disgusted'' = None"
    unfolding s by (simp add: newEmotionState_def)
  have k: "fst ` set (scores s) = EmotionCategory"
    unfolding s by (auto simp: newEmotionState_def EmotionCategory_def)
  have "dominant r \<in> fst ` set (Object_entries (emotions r))"
  proof (cases "faceDetected r")
    case False
    with detectEmotions_Some [OF r] have "r = no_face_result" by auto
    then show ?thesis by (simp add: no_face_result_def Object_entries_def)
  next
    case True
    with detectEmotions_Some [OF r]
    have "reduce pick_max (Object_entries (emotions r)) = Inr (dominant r, confidence r)"
      by (auto simp: no_face_result_def)
    from reduce_pick_max_split [OF this] show ?thesis by force
  qed
  then have m: "es_dominant s
      \<in> {''neutral'', ''happy'', ''sad'', ''angry'', ''fearful'', ''disgusted'', ''surprised''}"
    unfolding s by (auto simp: Object_entries_def newEmotionState_def)
  then have c: "es_dominant s \<noteq> ''disgusted'' \<longrightarrow> es_dominant s \<in> EmotionCategory"
    by (auto simp: EmotionCategory_def)
  from dv r copied have "\<exists>d v r. detectorRef st = Some d \<and> videoRef env = Some v
            \<and> fst (detectEmotions (detectAllFaces env) d v) = Inr (Some r)
            \<and> es_dominant s = dominant r
            \<and> es_confidence s = confidence r
            \<and> map_of (scores s) ''neutral'' = Some (neutral (emotions r))
            \<and> map_of (scores s) ''happy'' = Some (happy (emotions r))
            \<and> map_of (scores s) ''sad'' = Some (sad (emotions r))
            \<and> map_of (scores s) ''angry'' = Some (angry (emotions r))
            \<and> map_of (scores s) ''surprised'' = Some (surprised (emotions r))
            \<and> map_of (scores s) ''fearful'' = Some (fearful (emotions r))
            \<and> map_of (scores s) ''disgust'' = Some (disgusted (emotions r))
            \<and> map_of (scores s) ''disgusted'' = None" by blast
  with k m c show ?thesis by blast
qed

text \<open>
  At the tick with the tie the detector returns the dominant label \<open>happy\<close>, which is
  published; at the tick whose greatest raw score is \<open>disgusted\<close> (0.9) that score is
  published under \<open>disgust\<close> and the key \<open>disgusted\<close> is absent.
\<close>

theorem published_categories_witness:
  "SetEmotionState (emotionState (fst (processFrame tie_tick ready_hook)))
     \<in> set (snd (processFrame tie_tick ready_hook))
   \<and> SetAdditionalData (additionalData (fst (processFrame tie_tick ready_hook)))
     \<in> set (snd (processFrame tie_tick ready_hook))
   \<and> fst (detectEmotions (detectAllFaces tie_tick) ready_detector ready_video)
       = Inr (Some tie_result)
   \<and> es_dominant (emotionState (fst (processFrame tie_tick ready_hook))) = dominant tie_result
   \<and> fst ` set (scores (emotionState (fst (processFrame tie_tick ready_hook)))) = EmotionCategory
   \<and> es_dominant (emotionState (fst (processFrame tie_tick ready_hook))) \<in> EmotionCategory
   \<and> SetEmotionState (emotionState (fst (processFrame disgusted_tick ready_hook)))
     \<in> set (snd (processFrame disgusted_tick ready_hook))
   \<and> SetAdditionalData (additionalData (fst (processFrame disgusted_tick ready_hook)))
     \<in> set (snd (processFrame disgusted_tick ready_hook))
   \<and> map_of (scores (emotionState (fst (processFrame disgusted_tick ready_hook)))) ''disgust''
       = Some (9 / 10)
   \<and> map_of (scores (emotionState (fst (processFrame disgusted_tick ready_hook)))) ''disgusted''
       = None"
  using
    published_categories [of "emotionState (fst (processFrame tie_tick ready_hook))"
      tie_tick ready_hook "additionalData (fst (processFrame tie_tick ready_hook))"]
    published_categories [of "emotionState (fst (processFrame disgusted_tick ready_hook))"
      disgusted_tick ready_hook "additionalData (fst (processFrame disgusted_tick ready_hook))"]
  by (simp add: eval_defs)

text \<open>
  A face whose greatest score is the raw \<open>disgusted\<close>: the published dominant label is
  \<open>disgusted\<close>, which is not a member of the closed set.
\<close>

theorem disgusted_dominant_published:
  "SetEmotionState (emotionState (fst (processFrame disgusted_tick ready_hook)))
     \<in> set (snd (processFrame disgusted_tick ready_hook))
   \<and> es_dominant (emotionState (fst (processFrame disgusted_tick ready_hook))) = ''disgusted''
   \<and> es_dominant (emotionState (fst (processFrame disgusted_tick ready_hook)))
       \<notin> EmotionCategory"
  by (simp add: eval_defs EmotionCategory_def)

section \<open>detectEmotions\<close>

text \<open>
  C3. When the detector is ready and the library finds no face, \<open>detectEmotions\<close> returns a
  result whose emotions are neutral 1 and 0 for every other category, whose dominant label is
  \<open>neutral\<close>, whose confidence is 0, whose \<open>faceDetected\<close> is false and whose age and gender
  are absent.
\<close>

theorem no_face_detection_result:
  assumes "isInitialized this" and "modelsLoaded this" and "f video = Inr []"
  shows "\<exists>r. fst (detectEmotions f this video) = Inr (Some r)
          \<and> emotions r = \<lparr>neutral = 1, happy = 0, sad = 0, angry = 0, fearful = 0,
                            disgusted = 0, surprised = 0\<rparr>
          \<and> dominant r = ''neutral'' \<and> confidence r = 0 \<and> faceDetected r = False
          \<and> age r = None \<and> gender r = None"
  using assms by (simp add: detectEmotions_def detect_try_def no_face_result_def)

theorem no_face_detection_result_witness:
  "\<exists>r. fst (detectEmotions (\<lambda>_. Inr []) ready_detector ready_video) = Inr (Some r)
          \<and> emotions r = \<lparr>neutral = 1, happy = 0, sad = 0, angry = 0, fearful = 0,
                            disgusted = 0, surprised = 0\<rparr>
          \<and> dominant r = ''neutral'' \<and> confidence r = 0 \<and> faceDetected r = False
          \<and> age r = None \<and> gender r = None"
  using no_face_detection_result [of ready_detector "\<lambda>_. Inr []" ready_video]
  by (simp add: ready_detector_def)

text \<open>
  C6. \<open>detectEmotions\<close> never rejects: its outcome is always a returned value. When the
  detector is not ready it returns \<open>null\<close> and its only output is one warning; when the
  detector is ready and the library throws, it returns \<open>null\<close>.
\<close>

theorem detectEmotions_never_raises:
  "(\<exists>r. fst (detectEmotions f this video) = Inr r)
   \<and> (\<not> isInitialized this \<or> \<not> modelsLoaded this \<longrightarrow>
        detectEmotions f this video = (Inr None, [(Warn, ''face-api.js not initialized'')]))
   \<and> (isInitialized this \<and> modelsLoaded this \<and> f video = Inl e \<longrightarrow>
        fst (detectEmotions f this video) = Inr None)"
  by (auto simp: detectEmotions_def detect_try_def split: sum.splits prod.splits)

theorem detectEmotions_never_raises_witness:
  "detectEmotions (\<lambda>_. Inr []) new_FaceApiEmotionDetector ready_video
     = (Inr None, [(Warn, ''face-api.js not initialized'')])
   \<and> fst (detectEmotions (\<lambda>_. Inl (JsError ''backend failure'')) ready_detector ready_video)
       = Inr None"
  using
    detectEmotions_never_raises [of "\<lambda>_. Inr []" new_FaceApiEmotionDetector ready_video
      "JsError []"]
    detectEmotions_never_raises [of "\<lambda>_. Inl (JsError ''backend failure'')" ready_detector
      ready_video "JsError ''backend failure''"]
  by (simp add: new_FaceApiEmotionDetector_def ready_detector_def)

text \<open>
  C7. For a result with a face, the entries of its emotions, in the fixed order neutral,
  happy, sad, angry, fearful, disgusted, surprised, split at the dominant entry: the
  dominant label with the confidence as its score is an entry, every entry before it has a
  strictly smaller score and every entry after it has a score that is not greater. So the
  dominant score is the maximum, the confidence is exactly that score, and among tied maxima
  the first in the order is chosen.
\<close>

theorem dominant_is_first_maximum:
  assumes "fst (detectEmotions f this video) = Inr (Some r)" and "faceDetected r"
  shows "\<exists>pre post. Object_entries (emotions r) = pre @ (dominant r, confidence r) # post
           \<and> (\<forall>p\<in>set pre. snd p < confidence r)
           \<and> (\<forall>p\<in>set post. snd p \<le> confidence r)"
proof -
  from detectEmotions_Some [OF assms(1)] assms(2)
  have "reduce pick_max (Object_entries (emotions r)) = Inr (dominant r, confidence r)"
    by (auto simp: no_face_result_def)
  from reduce_pick_max_split [OF this] show ?thesis by simp
qed

text \<open>The tie of the specification: happy and sad at 0.5 select happy, the earlier one.\<close>

theorem dominant_is_first_maximum_witness:
  "fst (detectEmotions (detectAllFaces tie_tick) ready_detector ready_video)
     = Inr (Some tie_result)
   \<and> faceDetected tie_result
   \<and> dominant tie_result = ''happy''
   \<and> (\<exists>pre post. Object_entries (emotions tie_result)
          = pre @ (dominant tie_result, confidence tie_result) # post
        \<and> (\<forall>p\<in>set pre. snd p < confidence tie_result)
        \<and> (\<forall>p\<in>set post. snd p \<le> confidence tie_result))"
  using dominant_is_first_maximum [of "detectAllFaces tie_tick" ready_detector ready_video
      tie_result]
  by (simp add: eval_defs)

text \<open>
  C10, as amended. For a result with a face, age and gender are present. The age is an
  integer, the nearest one to the library's age (to 0 when that is absent), a half rounded
  up; it is non-negative whenever the library's age is at least -0.5. The gender is a
  non-empty string, \<open>unknown\<close> when the library gives none or an empty one.
\<close>

theorem face_age_gender_present:
  assumes "fst (detectEmotions f this video) = Inr (Some r)" and "faceDetected r"
  shows "\<exists>det rest n g. f video = Inr (det # rest)
           \<and> age r = Some (of_int n)
           \<and> of_int n - 1 / 2 \<le> or_number (detection_age det) 0
           \<and> or_number (detection_age det) 0 < of_int n + 1 / 2
           \<and> (- 1 / 2 \<le> or_number (detection_age det) 0 \<longrightarrow> 0 \<le> n)
           \<and> gender r = Some g \<and> g \<noteq> []
           \<and> g = or_string (detection_gender det) ''unknown''"
proof -
  from detectEmotions_Some [OF assms(1)] assms(2) obtain det rest where
    f: "f video = Inr (det # rest)"
    and a: "age r = Some (Math_round (or_number (detection_age det) 0))"
    and g: "gender r = Some (or_string (detection_gender det) ''unknown'')"
    by (auto simp: no_face_result_def)
  define x where "x = or_number (detection_age det) 0"
  define n where "n = \<lfloor>x + 1 / 2\<rfloor>"
  have 1: "of_int n - 1 / 2 \<le> x" unfolding n_def by linarith
  have 2: "x < of_int n + 1 / 2" unfolding n_def by linarith
  have 3: "- 1 / 2 \<le> x \<longrightarrow> 0 \<le> n" unfolding n_def by auto
  have 4: "or_string (detection_gender det) ''unknown'' \<noteq> []"
    by (simp add: or_string_def split: option.splits)
  from a have 5: "age r = Some (of_int n)" by (simp add: Math_round_def n_def x_def)
  from f 1 2 3 4 5 g show ?thesis unfolding x_def by blast
qed

text \<open>An age of 29.6 is returned as 30.\<close>

theorem face_age_gender_present_witness:
  "fst (detectEmotions (detectAllFaces tie_tick) ready_detector ready_video)
     = Inr (Some tie_result)
   \<and> faceDetected tie_result
   \<and> age tie_result = Some 30
   \<and> gender tie_result = Some ''female''
   \<and> (\<exists>det rest n g. detectAllFaces tie_tick ready_video = Inr (det # rest)
          \<and> age tie_result = Some (of_int n)
          \<and> of_int n - 1 / 2 \<le> or_number (detection_age det) 0
          \<and> or_number (detection_age det) 0 < of_int n + 1 / 2
          \<and> (- 1 / 2 \<le> or_number (detection_age det) 0 \<longrightarrow> 0 \<le> n)
          \<and> gender tie_result = Some g \<and> g \<noteq> []
          \<and> g = or_string (detection_gender det) ''unknown'')"
proof -
  have h: "fst (detectEmotions (detectAllFaces tie_tick) ready_detector ready_video)
     = Inr (Some tie_result)" by (simp add: eval_defs)
  have d: "faceDetected tie_result" by (simp add: tie_result_def)
  have "age tie_result = Some 30 \<and> gender tie_result = Some ''female''"
    by (simp add: tie_result_def)
  with h d face_age_gender_present [OF h d] show ?thesis by blast
qed

text \<open>
  A face for which the library's age regression gives -3: the result has a face and its
  age is -3.
\<close>

theorem negative_age_returned:
  "fst (detectEmotions (\<lambda>_. Inr [face (1 / 2) (1 / 2) 0 (- 3)]) ready_detector ready_video)
     = Inr (Some negative_age_result)
   \<and> faceDetected negative_age_result
   \<and> age negative_age_result = Some (- 3)"
  by (simp add: eval_defs)

section \<open>The sampling loop\<close>

text \<open>
  C4 fails on the code. On a tick on which the loop is active (active flag set, video element
  and detector present, hook initialised) and the video frame is not decodable,
  \<open>processFrame\<close> returns at once: it calls no detection, and it requests no further frame,
  so no next tick is scheduled.
\<close>

theorem undecodable_frame_stops_loop:
  assumes "isActive env" and "isInitialized_state st" and "detectorRef st = Some d"
    and "videoRef env = Some v"
    and "readyState v \<noteq> 4 \<or> videoWidth v = 0 \<or> videoHeight v = 0"
  shows "processFrame env st = (st, [])
       \<and> DetectEmotions \<notin> set (snd (processFrame env st))
       \<and> RequestAnimationFrame \<notin> set (snd (processFrame env st))"
  using assms by (auto simp: processFrame_def)

text \<open>
  The video element reports \<open>HAVE_CURRENT_DATA\<close>, as it may when \<open>loadeddata\<close> has just
  fired and the caller has set the active flag.
\<close>

theorem undecodable_frame_stops_loop_witness:
  "isActive loading_tick \<and> isInitialized_state ready_hook
   \<and> detectorRef ready_hook = Some ready_detector
   \<and> videoRef loading_tick = Some loading_video
   \<and> readyState loading_video \<noteq> 4
   \<and> processFrame loading_tick ready_hook = (ready_hook, [])
   \<and> RequestAnimationFrame \<notin> set (snd (processFrame loading_tick ready_hook))"
  using undecodable_frame_stops_loop [of loading_tick ready_hook ready_detector loading_video]
  by (simp add: loading_tick_def tick_at_def ready_hook_def loading_video_def)

text \<open>
  C5. On a tick with the loop active, the frame decodable and less than 333 ms elapsed since
  the last attempt, \<open>processFrame\<close> calls no detection and changes nothing but the pending
  frame request. For every sequence of runs of \<open>processFrame\<close>, whatever the clock readings,
  and every window of 1000 ms, the number of runs in the window that call \<open>detectEmotions\<close>
  is at most \<open>\<lceil>1000/333\<rceil> + 1\<close>.
\<close>

theorem throttle_limits_detections:
  "(isActive env \<and> videoRef env = Some v \<and> readyState v = 4 \<and> 0 < videoWidth v
      \<and> 0 < videoHeight v \<and> detectorRef st = Some d \<and> isInitialized_state st
      \<and> performance_now env - lastProcessTimeRef st < 333 \<longrightarrow>
    processFrame env st
      = (st\<lparr>animationFrameRef := Some (requestAnimationFrame env)\<rparr>, [RequestAnimationFrame]))
   \<and> length (filter (\<lambda>t. T \<le> t \<and> t \<le> T + 1000) (detection_times st0 envs))
       \<le> nat \<lceil>1000 / (333 :: real)\<rceil> + 1"
proof -
  have "length (filter (\<lambda>t. T \<le> t \<and> t \<le> T + 1000) (detection_times st0 envs)) \<le> 4"
    using detection_times_spaced [of st0 envs] by (simp add: spaced_window)
  then have "length (filter (\<lambda>t. T \<le> t \<and> t \<le> T + 1000) (detection_times st0 envs))
       \<le> nat \<lceil>1000 / (333 :: real)\<rceil> + 1" unfolding throttle_bound by simp
  then show ?thesis
    by (simp add: processFrame_def continue_processing_def)
qed

text \<open>
  A tick 100 ms after the last attempt only requests the next frame; ticks every 200 ms
  from 0 to 1000 ms call the detection at 400 and 800 ms.
\<close>

theorem throttle_limits_detections_witness:
  "performance_now throttled_tick - lastProcessTimeRef ready_hook < 333
   \<and> processFrame throttled_tick ready_hook
       = (ready_hook\<lparr>animationFrameRef := Some 7\<rparr>, [RequestAnimationFrame])
   \<and> detection_times ready_hook
        (map (\<lambda>t. tick_at t ready_video (Inr [])) [0, 200, 400, 600, 800, 1000]) = [400, 800]
   \<and> length (filter (\<lambda>t. 0 \<le> t \<and> t \<le> 0 + 1000)
        (detection_times ready_hook
           (map (\<lambda>t. tick_at t ready_video (Inr [])) [0, 200, 400, 600, 800, 1000])))
       \<le> nat \<lceil>1000 / (333 :: real)\<rceil> + 1"
proof -
  have t: "processFrame throttled_tick ready_hook
       = (ready_hook\<lparr>animationFrameRef := Some 7\<rparr>, [RequestAnimationFrame])
     \<and> performance_now throttled_tick - lastProcessTimeRef ready_hook < 333"
    using throttle_limits_detections
      [of throttled_tick ready_video ready_hook ready_detector 0 ready_hook "[]"]
    by (simp add: throttled_tick_def tick_at_def ready_hook_def initial_hook_def
        ready_video_def)
  have d: "detection_times ready_hook
        (map (\<lambda>t. tick_at t ready_video (Inr [])) [0, 200, 400, 600, 800, 1000]) = [400, 800]"
    by (simp add: detection_times_def eval_defs)
  from t d show ?thesis by simp
qed

text \<open>
  C8. On a tick whose call of \<open>detectEmotions\<close> returns \<open>null\<close>, the published emotion
  state, the additional data and the initialised flag are what they were, neither state
  setter is called, and the next frame is requested.
\<close>

theorem not_found_keeps_published_state:
  assumes "detectorRef st = Some d" and "videoRef env = Some v"
    and "fst (detectEmotions (detectAllFaces env) d v) = Inr None"
  shows "emotionState (fst (processFrame env st)) = emotionState st
       \<and> additionalData (fst (processFrame env st)) = additionalData st
       \<and> isInitialized_state (fst (processFrame env st)) = isInitialized_state st
       \<and> (\<forall>s. SetEmotionState s \<notin> set (snd (processFrame env st)))
       \<and> (\<forall>a. SetAdditionalData a \<notin> set (snd (processFrame env st)))
       \<and> (DetectEmotions \<in> set (snd (processFrame env st)) \<longrightarrow>
            RequestAnimationFrame \<in> set (snd (processFrame env st))
            \<and> animationFrameRef (fst (processFrame env st)) = Some (requestAnimationFrame env))"
  using assms
  by (auto simp: processFrame_def sample_def continue_processing_def Let_def
      split: option.splits if_splits prod.splits sum.splits)

text \<open>A tick on which the library throws.\<close>

theorem not_found_keeps_published_state_witness:
  "detectorRef ready_hook = Some ready_detector
   \<and> videoRef failing_tick = Some ready_video
   \<and> fst (detectEmotions (detectAllFaces failing_tick) ready_detector ready_video) = Inr None
   \<and> DetectEmotions \<in> set (snd (processFrame failing_tick ready_hook))
   \<and> emotionState (fst (processFrame failing_tick ready_hook)) = emotionState ready_hook
   \<and> additionalData (fst (processFrame failing_tick ready_hook)) = additionalData ready_hook
   \<and> RequestAnimationFrame \<in> set (snd (processFrame failing_tick ready_hook))"
  using not_found_keeps_published_state [of ready_hook ready_detector failing_tick ready_video]
  by (simp add: eval_defs)

section \<open>initialize\<close>

text \<open>
  C9, as amended. A call of \<open>initialize\<close> on an initialised detector returns at once with
  success: it starts no load and prints nothing. A call on a detector that is not yet
  initialised starts a load of the five models and waits for it, whether or not an earlier
  call is still waiting for its own load: the class keeps no record of a load in flight.
\<close>

theorem initialize_when_ready_or_not:
  "(isInitialized this \<longrightarrow> initialize_enter this net = (Resolved, net, []))
   \<and> (\<not> isInitialized this \<longrightarrow>
        fst (initialize_enter this net) = AwaitingModels
        \<and> loads_started (fst (snd (initialize_enter this net))) = loads_started net + 5
        \<and> loads_in_flight (fst (snd (initialize_enter this net))) = loads_in_flight net + 1)"
  by (simp add: initialize_enter_def)

theorem initialize_when_ready_or_not_witness:
  "isInitialized ready_detector
   \<and> initialize_enter ready_detector idle_network = (Resolved, idle_network, [])
   \<and> \<not> isInitialized new_FaceApiEmotionDetector
   \<and> fst (initialize_enter new_FaceApiEmotionDetector idle_network) = AwaitingModels
   \<and> loads_started (fst (snd (initialize_enter new_FaceApiEmotionDetector idle_network))) = 5"
  using initialize_when_ready_or_not [of ready_detector idle_network]
    initialize_when_ready_or_not [of new_FaceApiEmotionDetector idle_network]
  by (simp add: ready_detector_def new_FaceApiEmotionDetector_def idle_network_def)

text \<open>
  Two calls on a fresh detector, the second made while the first is waiting for its load:
  one batch is in flight when the second call enters, and the second call starts five more
  loads.
\<close>

theorem second_call_starts_second_load:
  "loads_in_flight (fst (snd (initialize_enter new_FaceApiEmotionDetector idle_network))) = 1
   \<and> loads_started (fst (snd (initialize_enter new_FaceApiEmotionDetector idle_network))) = 5
   \<and> loads_started (fst (snd (initialize_enter new_FaceApiEmotionDetector
        (fst (snd (initialize_enter new_FaceApiEmotionDetector idle_network)))))) = 10
   \<and> loads_in_flight (fst (snd (initialize_enter new_FaceApiEmotionDetector
        (fst (snd (initialize_enter new_FaceApiEmotionDetector idle_network)))))) = 2"
  by (simp add: initialize_enter_def new_FaceApiEmotionDetector_def idle_network_def)

end
